theory Spec2Isabelle
  imports Main "HOL-Library.Word"
begin

section \<open>The C fragment that testlib.c is written in\<close>

text \<open>
  \<^verbatim>\<open>testlib.c\<close> is one translation unit with two exported functions and no object
  at file scope. Its functions take and return \<^verbatim>\<open>int\<close>, which is a 32-bit two's
  complement integer on every ABI the library is built for; \<open>sint\<close> reads the C value
  of such a word.
\<close>

type_synonym c_int = "32 word"

text \<open>
  Everything a C call could read or write besides its by-value arguments: the flat,
  byte-addressed storage of the process (objects of static storage duration of any
  module, the heap, the frames of the callers).
\<close>

type_synonym addr = nat
type_synonym memory = "addr \<Rightarrow> 8 word"

text \<open>The way a C call can go wrong instead of returning.\<close>

datatype c_fault = Undefined_Behaviour

text \<open>
  A call runs from a memory. \<open>None\<close> stands for a call that never returns; otherwise
  it yields the memory it leaves behind and either a fault (\<open>Inl\<close>) or the returned
  value (\<open>Inr\<close>).
\<close>

type_synonym 'a c_call = "memory \<Rightarrow> ((c_fault + 'a) \<times> memory) option"

text \<open>\<^verbatim>\<open>return e;\<close> with \<open>e\<close> already evaluated: hands the value back, touches nothing.\<close>

definition c_return :: "'a \<Rightarrow> 'a c_call" where
  "c_return v m = Some (Inr v, m)"

text \<open>
  The operator \<^verbatim>\<open>==\<close> on two \<^verbatim>\<open>int\<close> operands: its result has type \<^verbatim>\<open>int\<close> and is
  1 when the operands compare equal and 0 when they do not.
\<close>

definition c_eq :: "c_int \<Rightarrow> c_int \<Rightarrow> c_int" where
  "c_eq a b = (if a = b then 1 else 0)"

section \<open>The two exported functions\<close>

text \<open>
  \<^verbatim>\<open>TEST_API int testlib_test1() { return 1337; }\<close>
\<close>

definition testlib_test1 :: "c_int c_call" where
  "testlib_test1 = c_return 1337"

text \<open>
  \<^verbatim>\<open>TEST_API int testlib_test2(int i1, int i2) { return i1 == i2; }\<close>
\<close>

definition testlib_test2 :: "c_int \<Rightarrow> c_int \<Rightarrow> c_int c_call" where
  "testlib_test2 i1 i2 = c_return (c_eq i1 i2)"

section \<open>What a call yields\<close>

lemma testlib_test1_run: "testlib_test1 m = Some (Inr 1337, m)"
  by (simp add: testlib_test1_def c_return_def)

lemma testlib_test2_run: "testlib_test2 i1 i2 m = Some (Inr (c_eq i1 i2), m)"
  by (simp add: testlib_test2_def c_return_def)

lemma c_int_eq_iff_sint: "a = b \<longleftrightarrow> sint a = sint b" for a b :: c_int
  by (auto intro: signed_word_eqI)

section \<open>The claims of the specification\<close>

text \<open>
  C1: for every pair of \<^verbatim>\<open>int\<close> inputs, \<open>testlib_test2\<close> returns the result of
  comparing them for equality: from any memory the call returns a value that is nonzero
  (true) when the C values of \<open>i1\<close> and \<open>i2\<close> are equal and zero (false) otherwise.
\<close>

theorem testlib_test2_compares_equality:
  "\<exists>v. testlib_test2 i1 i2 m = Some (Inr v, m) \<and>
       (if sint i1 = sint i2 then v \<noteq> 0 else v = 0)"
  using c_int_eq_iff_sint [of i1 i2] by (simp add: testlib_test2_run c_eq_def)

theorem testlib_test2_compares_equality_witness:
  "testlib_test2 7 7 (\<lambda>_. 0) = Some (Inr 1, \<lambda>_. 0) \<and>
   testlib_test2 7 (- 8) (\<lambda>_. 0) = Some (Inr 0, \<lambda>_. 0)"
  using testlib_test2_compares_equality [of 7 7 "\<lambda>_. 0"]
    testlib_test2_compares_equality [of 7 "- 8" "\<lambda>_. 0"]
  by (simp add: testlib_test2_run c_eq_def)

text \<open>
  C2: \<open>testlib_test1\<close> returns a constant: there is one value \<open>c\<close> that every call
  returns, whatever memory the call starts from, hence whenever and however often the
  function has been called before.
\<close>

theorem testlib_test1_constant:
  "\<exists>c. \<forall>m. \<exists>m'. testlib_test1 m = Some (Inr c, m')"
  using testlib_test1_run by blast

text \<open>
  C3: both functions are deterministic and read no hidden state: two runs with the same
  arguments give the same result, whatever the two memories they start from (and so
  whatever calls came before).
\<close>

theorem testlib_calls_deterministic:
  "map_option fst (testlib_test1 m) = map_option fst (testlib_test1 m') \<and>
   map_option fst (testlib_test2 i1 i2 m) = map_option fst (testlib_test2 i1 i2 m')"
  by (simp add: testlib_test1_run testlib_test2_run)

text \<open>
  C4: a call of either function has no side effect: for every input, the memory after
  the call is the memory before it, at every address.
\<close>

theorem testlib_calls_leave_memory:
  "map_option snd (testlib_test1 m) = Some m \<and>
   map_option snd (testlib_test2 i1 i2 m) = Some m"
  by (simp add: testlib_test1_run testlib_test2_run)

text \<open>
  C5: neither function can fail: for every input, each call returns normally with an
  \<^verbatim>\<open>int\<close> result, and no call ends in a fault.
\<close>

theorem testlib_calls_never_fault:
  "(\<exists>v m'. testlib_test1 m = Some (Inr v, m')) \<and>
   (\<exists>v m'. testlib_test2 i1 i2 m = Some (Inr v, m')) \<and>
   (\<forall>f m'. testlib_test1 m \<noteq> Some (Inl f, m')) \<and>
   (\<forall>f m'. testlib_test2 i1 i2 m \<noteq> Some (Inl f, m'))"
  by (simp add: testlib_test1_run testlib_test2_run)

text \<open>
  C6: both functions terminate on every input: no call is one that never returns.
\<close>

theorem testlib_calls_terminate:
  "testlib_test1 m \<noteq> None \<and> testlib_test2 i1 i2 m \<noteq> None"
  by (simp add: testlib_test1_run testlib_test2_run)

text \<open>
  C7: \<open>testlib_test1\<close> returns exactly the integer 1337 on every call: from any memory
  the call returns a value whose reading as a C \<^verbatim>\<open>int\<close> is 1337.
\<close>

theorem testlib_test1_returns_1337:
  "\<exists>v. testlib_test1 m = Some (Inr v, m) \<and> sint v = 1337"
  by (simp add: testlib_test1_run)

text \<open>
  C8: for every pair of \<^verbatim>\<open>int\<close> inputs, the value \<open>testlib_test2\<close> returns is
  exactly 0 or 1, read as a C \<^verbatim>\<open>int\<close>.
\<close>

theorem testlib_test2_zero_or_one:
  "\<exists>v. testlib_test2 i1 i2 m = Some (Inr v, m) \<and> (sint v = 0 \<or> sint v = 1)"
  by (simp add: testlib_test2_run c_eq_def)

theorem testlib_test2_zero_or_one_witness:
  "(\<exists>v. testlib_test2 3 3 (\<lambda>_. 0) = Some (Inr v, \<lambda>_. 0) \<and> sint v = 1) \<and>
   (\<exists>v. testlib_test2 3 4 (\<lambda>_. 0) = Some (Inr v, \<lambda>_. 0) \<and> sint v = 0)"
  using testlib_test2_zero_or_one [of 3 3 "\<lambda>_. 0"]
    testlib_test2_zero_or_one [of 3 4 "\<lambda>_. 0"]
  by (simp add: testlib_test2_run c_eq_def)

text \<open>
  C9: \<open>testlib_test2\<close> is commutative in its two arguments: swapping them gives the
  same call, from every memory.
\<close>

theorem testlib_test2_commutative:
  "testlib_test2 a b = testlib_test2 b a"
  by (auto simp add: testlib_test2_def c_eq_def)

end
